theory Spec2Isabelle
  imports Main "HOL-Library.Word"
begin

section \<open>Event source plugins: values, exceptions and the observable trace\<close>

text \<open>
  The development follows \<^verbatim>\<open>src/zenml/event_sources/base_event_source_plugin.py\<close>.
  Python values that travel in a configuration payload (\<^verbatim>\<open>Dict[str, Any]\<close>) are a
  small datatype; a dictionary is an association list.
\<close>

datatype pyval =
    PyNone
  | PyBool bool
  | PyInt int
  | PyStr string
  | PyList "pyval list"
  | PyDict "(string \<times> pyval) list"

type_synonym payload = "(string \<times> pyval) list"

type_synonym UUID = "128 word"

text \<open>
  A raised exception: the method resolution order of its class (so that
  \<^verbatim>\<open>except ValueError\<close> is a membership test), its message, and the exception that
  was being handled when it was raised (Python sets \<^verbatim>\<open>__context__\<close> on a
  \<^verbatim>\<open>raise\<close> inside an \<^verbatim>\<open>except\<close> block).
\<close>

datatype pyexc = PyExc (exc_mro: "string list") (exc_args: string) (exc_context: "pyexc option")

definition isinstance_exc :: "pyexc \<Rightarrow> string \<Rightarrow> bool" where
  "isinstance_exc e cls = (cls \<in> set (exc_mro e))"

definition ValueError_mro :: "string list" where
  "ValueError_mro = [''ValueError'', ''Exception'', ''BaseException'', ''object'']"

text \<open>\<^verbatim>\<open>ValueError(msg)\<close> raised while \<open>ctx\<close> is being handled.\<close>

definition ValueError :: "string \<Rightarrow> pyexc option \<Rightarrow> pyexc" where
  "ValueError msg ctx = PyExc ValueError_mro msg ctx"

text \<open>
  \<^verbatim>\<open>EventSourceRequest\<close> is imported from \<^verbatim>\<open>zenml.models\<close>; the plugin reads its
  \<^verbatim>\<open>configuration\<close> only. The flavor name is the routing field of the creation request.
\<close>

record EventSourceRequest =
  flavor :: string
  configuration :: payload

text \<open>
  What a run of the plugin does that an observer can see, in order: the construction of the
  typed configuration, the calls of the three abstract methods, and the log record written
  by \<^verbatim>\<open>logger.info\<close> (format string and its argument).
\<close>

datatype 'ev effect =
    Called_config_class payload
  | Called_create_event_source EventSourceRequest
  | Called_get_all_relevant_event_sources 'ev
  | Called_get_matching_triggers "UUID list" 'ev
  | Logger_info string "UUID list"

text \<open>
  The world threaded through the plugin: the trace so far and the state \<open>'s\<close> that the
  flavor-specific methods read and write (the store behind the plugin).
\<close>

record ('ev, 's) world =
  trace :: "'ev effect list"
  store :: "'s"

text \<open>
  A plugin instance: \<^verbatim>\<open>config_class\<close> (the property, which the base class answers with
  \<^verbatim>\<open>EventSourceConfig\<close> and a flavor's plugin overrides; calling the class on the unpacked
  payload either raises or yields the typed configuration) and the three abstract methods
  \<^verbatim>\<open>_create_event_source\<close>, \<^verbatim>\<open>_get_all_relevant_event_sources\<close> and
  \<^verbatim>\<open>_get_matching_triggers\<close>, each of which may raise and may change the store.
\<close>

record ('cfg, 'resp, 'ev, 's) plugin =
  config_class :: "payload \<Rightarrow> pyexc + 'cfg"
  abs_create_event_source :: "EventSourceRequest \<Rightarrow> 's \<Rightarrow> (pyexc + 'resp) \<times> 's"
  abs_get_all_relevant_event_sources :: "'ev \<Rightarrow> 's \<Rightarrow> (pyexc + UUID list) \<times> 's"
  abs_get_matching_triggers :: "UUID list \<Rightarrow> 'ev \<Rightarrow> 's \<Rightarrow> (pyexc + UUID list) \<times> 's"

definition emit :: "'ev effect \<Rightarrow> ('ev, 's) world \<Rightarrow> ('ev, 's) world" where
  "emit x w = w\<lparr>trace := trace w @ [x]\<rparr>"

section \<open>Creating an event source\<close>

text \<open>
  \<^verbatim>\<open>
  def _fail_if_event_source_configuration_invalid(self, event_source):
      try:
          self.config_class(**event_source.configuration)
      except ValueError:
          raise ValueError("Invalid Configuration.")
      else:
          return
  \<close>
  The constructed configuration is not bound to anything; the method returns \<^verbatim>\<open>None\<close>.
\<close>

definition fail_if_event_source_configuration_invalid ::
  "('cfg, 'resp, 'ev, 's) plugin \<Rightarrow> EventSourceRequest \<Rightarrow> ('ev, 's) world
     \<Rightarrow> (pyexc + unit) \<times> ('ev, 's) world" where
  "fail_if_event_source_configuration_invalid self event_source w =
     (let w1 = emit (Called_config_class (configuration event_source)) w in
      case config_class self (configuration event_source) of
        Inl e \<Rightarrow>
          if isinstance_exc e ''ValueError''
          then (Inl (ValueError ''Invalid Configuration.'' (Some e)), w1)
          else (Inl e, w1)
      | Inr cfg \<Rightarrow> (Inr (), w1))"

text \<open>The call of the abstract \<^verbatim>\<open>_create_event_source\<close>, recorded in the trace.\<close>

definition call_create_event_source ::
  "('cfg, 'resp, 'ev, 's) plugin \<Rightarrow> EventSourceRequest \<Rightarrow> ('ev, 's) world
     \<Rightarrow> (pyexc + 'resp) \<times> ('ev, 's) world" where
  "call_create_event_source self event_source w =
     (let w1 = emit (Called_create_event_source event_source) w;
          (r, s') = abs_create_event_source self event_source (store w1)
      in (r, w1\<lparr>store := s'\<rparr>))"

text \<open>
  \<^verbatim>\<open>
  def create_event_source(self, event_source):
      self._fail_if_event_source_configuration_invalid(event_source=event_source)
      return self._create_event_source(event_source=event_source)
  \<close>
\<close>

definition create_event_source ::
  "('cfg, 'resp, 'ev, 's) plugin \<Rightarrow> EventSourceRequest \<Rightarrow> ('ev, 's) world
     \<Rightarrow> (pyexc + 'resp) \<times> ('ev, 's) world" where
  "create_event_source self event_source w =
     (case fail_if_event_source_configuration_invalid self event_source w of
        (Inl e, w1) \<Rightarrow> (Inl e, w1)
      | (Inr u, w1) \<Rightarrow> call_create_event_source self event_source w1)"

section \<open>Processing an event\<close>

definition call_get_all_relevant_event_sources ::
  "('cfg, 'resp, 'ev, 's) plugin \<Rightarrow> 'ev \<Rightarrow> ('ev, 's) world
     \<Rightarrow> (pyexc + UUID list) \<times> ('ev, 's) world" where
  "call_get_all_relevant_event_sources self event w =
     (let w1 = emit (Called_get_all_relevant_event_sources event) w;
          (r, s') = abs_get_all_relevant_event_sources self event (store w1)
      in (r, w1\<lparr>store := s'\<rparr>))"

definition call_get_matching_triggers ::
  "('cfg, 'resp, 'ev, 's) plugin \<Rightarrow> UUID list \<Rightarrow> 'ev \<Rightarrow> ('ev, 's) world
     \<Rightarrow> (pyexc + UUID list) \<times> ('ev, 's) world" where
  "call_get_matching_triggers self event_source_ids event w =
     (let w1 = emit (Called_get_matching_triggers event_source_ids event) w;
          (r, s') = abs_get_matching_triggers self event_source_ids event (store w1)
      in (r, w1\<lparr>store := s'\<rparr>))"

definition forward_message :: string where
  "forward_message =
     ''An event came in and will be forwarded to the following subscriber %s''"

text \<open>
  \<^verbatim>\<open>
  def process_event(self, event):
      event_source_ids = self._get_all_relevant_event_sources(event=event)
      if event_source_ids:
          trigger_ids = self._get_matching_triggers(
              event_source_ids=event_source_ids, event=event)
          # TODO: Forward the event together with the list of trigger ids
          #  over to the EventHub
          logger.info("An event came in and will be forwarded to "
                      "the following subscriber %s", trigger_ids)
  \<close>
  An empty list is falsy. The method returns \<^verbatim>\<open>None\<close> on every path that does not raise.
\<close>

definition process_event ::
  "('cfg, 'resp, 'ev, 's) plugin \<Rightarrow> 'ev \<Rightarrow> ('ev, 's) world
     \<Rightarrow> (pyexc + unit) \<times> ('ev, 's) world" where
  "process_event self event w =
     (case call_get_all_relevant_event_sources self event w of
        (Inl e, w1) \<Rightarrow> (Inl e, w1)
      | (Inr event_source_ids, w1) \<Rightarrow>
          if event_source_ids \<noteq> [] then
            (case call_get_matching_triggers self event_source_ids event w1 of
               (Inl e, w2) \<Rightarrow> (Inl e, w2)
             | (Inr trigger_ids, w2) \<Rightarrow>
                 (Inr (), emit (Logger_info forward_message trigger_ids) w2))
          else (Inr (), w1))"

section \<open>Flavors and their schemas\<close>

text \<open>
  \<^verbatim>\<open>PluginType\<close> is imported from \<^verbatim>\<open>zenml.enums\<close>; the flavor base class uses its
  member \<^verbatim>\<open>EVENT_SOURCE\<close>. The other members are kept apart by their value.
\<close>

datatype PluginType = EVENT_SOURCE | OTHER_PLUGIN_TYPE string

text \<open>
  The class attributes of a flavor: its name and the two configuration classes
  (\<open>'cls\<close> is the type of pydantic model classes).
\<close>

record 'cls BaseEventSourcePluginFlavor =
  FLAVOR :: string
  EVENT_SOURCE_CONFIG_CLASS :: "'cls"
  EVENT_FILTER_CONFIG_CLASS :: "'cls"



text \<open>
  pydantic's \<^verbatim>\<open>schema_json\<close> and the standard library's \<^verbatim>\<open>json.loads\<close> are
  parameters: \<open>schema_json\<close> maps a model class to its schema as JSON text, \<open>json_loads\<close>
  maps JSON text to the dictionary it denotes.

  \<^verbatim>\<open>
  def get_event_filter_config_schema(cls):
      config_schema = json.loads(cls.EVENT_SOURCE_CONFIG_CLASS.schema_json())
      return config_schema

  def get_event_source_config_schema(cls):
      config_schema = json.loads(cls.EVENT_FILTER_CONFIG_CLASS.schema_json())
      return config_schema
  \<close>
\<close>

definition get_event_filter_config_schema ::
  "('cls \<Rightarrow> 'text) \<Rightarrow> ('text \<Rightarrow> 'schema) \<Rightarrow> 'cls BaseEventSourcePluginFlavor \<Rightarrow> 'schema" where
  "get_event_filter_config_schema schema_json json_loads cls =
     json_loads (schema_json (EVENT_SOURCE_CONFIG_CLASS cls))"

definition get_event_source_config_schema ::
  "('cls \<Rightarrow> 'text) \<Rightarrow> ('text \<Rightarrow> 'schema) \<Rightarrow> 'cls BaseEventSourcePluginFlavor \<Rightarrow> 'schema" where
  "get_event_source_config_schema schema_json json_loads cls =
     json_loads (schema_json (EVENT_FILTER_CONFIG_CLASS cls))"


section \<open>The matching-triggers extension point, from its specification\<close>

text \<open>
  A persisted trigger as the plugin sees it: its identifier, the event source it listens
  on, and its own filter configuration. A trigger that listens on two event sources has
  one row for each.
\<close>

record 'f Trigger =
  trigger_id :: UUID
  trigger_event_source_id :: UUID
  trigger_filter :: "'f"

text \<open>
  Modelled from the spec: no implementation of the abstract \<^verbatim>\<open>_get_matching_triggers\<close>
  is among the sources. Section 4.4, step 3: for every trigger registered against any
  identifier in the input set, the trigger's filter is evaluated on the event; the triggers
  whose filter returns true are in the result, each identifier at most once.
  \<open>event_matches_filter\<close> is the (abstract) method of \<^verbatim>\<open>EventFilterConfig\<close>.
\<close>

definition matching_triggers_spec ::
  "('f \<Rightarrow> 'ev \<Rightarrow> bool) \<Rightarrow> 'f Trigger list \<Rightarrow> UUID list \<Rightarrow> 'ev \<Rightarrow> UUID list" where
  "matching_triggers_spec event_matches_filter triggers event_source_ids event =
     remdups (map trigger_id
       (filter (\<lambda>t. trigger_event_source_id t \<in> set event_source_ids
                     \<and> event_matches_filter (trigger_filter t) event) triggers))"

text \<open>
  Modelled from the spec: the extension point as a method of a plugin whose store holds the
  triggers (\<open>triggers_of\<close> reads them); it does not raise and leaves the store as it is.
\<close>

definition get_matching_triggers_spec ::
  "('f \<Rightarrow> 'ev \<Rightarrow> bool) \<Rightarrow> ('s \<Rightarrow> 'f Trigger list) \<Rightarrow> UUID list \<Rightarrow> 'ev \<Rightarrow> 's
     \<Rightarrow> (pyexc + UUID list) \<times> 's" where
  "get_matching_triggers_spec event_matches_filter triggers_of event_source_ids event s =
     (Inr (matching_triggers_spec event_matches_filter (triggers_of s) event_source_ids event), s)"

section \<open>A webhook flavor to run the plugin on\<close>

text \<open>
  A pydantic model class whose fields are all required strings: its title and its field
  names. Constructing it from a payload reports every field that is missing or not a
  string in one \<^verbatim>\<open>ValidationError\<close> (a subclass of \<^verbatim>\<open>ValueError\<close>); extra keys are
  ignored.
\<close>

record ModelClass =
  cls_title :: string
  cls_fields :: "string list"

definition ValidationError_mro :: "string list" where
  "ValidationError_mro =
     [''ValidationError'', ''Representation'', ''ValueError'', ''Exception'',
      ''BaseException'', ''object'']"

definition KeyError_mro :: "string list" where
  "KeyError_mro = [''KeyError'', ''LookupError'', ''Exception'', ''BaseException'', ''object'']"

fun field_error :: "payload \<Rightarrow> string \<Rightarrow> string list" where
  "field_error p f =
     (case map_of p f of
        None \<Rightarrow> [f @ '': field required'']
      | Some (PyStr s) \<Rightarrow> []
      | Some v \<Rightarrow> [f @ '': str type expected''])"

fun field_value :: "payload \<Rightarrow> string \<Rightarrow> string" where
  "field_value p f = (case map_of p f of Some (PyStr s) \<Rightarrow> s | _ \<Rightarrow> [])"

definition construct :: "ModelClass \<Rightarrow> payload \<Rightarrow> pyexc + (string \<times> string) list" where
  "construct c p =
     (let errs = concat (map (field_error p) (cls_fields c)) in
      if errs \<noteq> []
      then Inl (PyExc ValidationError_mro (concat (map (\<lambda>l. l @ ''; '') errs)) None)
      else Inr (map (\<lambda>f. (f, field_value p f)) (cls_fields c)))"

text \<open>
  A model class with a validator that indexes the payload before pydantic's own checks run:
  a missing key raises \<^verbatim>\<open>KeyError\<close>, which pydantic does not wrap.
\<close>

definition construct_indexing :: "ModelClass \<Rightarrow> payload \<Rightarrow> pyexc + (string \<times> string) list" where
  "construct_indexing c p =
     (case filter (\<lambda>f. map_of p f = None) (cls_fields c) of
        [] \<Rightarrow> construct c p
      | f # fs \<Rightarrow> Inl (PyExc KeyError_mro f None))"

definition WebhookSourceConfig :: ModelClass where
  "WebhookSourceConfig = \<lparr> cls_title = ''WebhookSourceConfig'', cls_fields = [''repoUrl'', ''secret''] \<rparr>"

definition WebhookFilterConfig :: ModelClass where
  "WebhookFilterConfig = \<lparr> cls_title = ''WebhookFilterConfig'', cls_fields = [''branch''] \<rparr>"

definition WebhookFlavor :: "ModelClass BaseEventSourcePluginFlavor" where
  "WebhookFlavor =
     \<lparr> FLAVOR = ''webhook'',
       EVENT_SOURCE_CONFIG_CLASS = WebhookSourceConfig,
       EVENT_FILTER_CONFIG_CLASS = WebhookFilterConfig \<rparr>"

text \<open>
  The schema of such a class as pydantic lays it out; the JSON text is identified with
  the dictionary it denotes, so \<^verbatim>\<open>json.loads\<close> is the identity here.
\<close>

definition model_schema :: "ModelClass \<Rightarrow> pyval" where
  "model_schema c =
     PyDict [(''title'', PyStr (cls_title c)),
             (''type'', PyStr ''object''),
             (''properties'',
                PyDict (map (\<lambda>f. (f, PyDict [(''type'', PyStr ''string'')])) (cls_fields c))),
             (''required'', PyList (map PyStr (cls_fields c)))]"

text \<open>
  Webhook events and filters are dictionaries; a filter matches an event that has each of
  the filter's keys with the filter's value. The store is the list of triggers; every
  event source is relevant to an event that names a repository, and creation answers with
  the request's configuration.
\<close>

definition webhook_matches :: "payload \<Rightarrow> payload \<Rightarrow> bool" where
  "webhook_matches f event = list_all (\<lambda>(k, v). map_of event k = Some v) f"

definition webhook_relevant ::
  "UUID list \<Rightarrow> payload \<Rightarrow> payload Trigger list \<Rightarrow> (pyexc + UUID list) \<times> payload Trigger list" where
  "webhook_relevant sources event s =
     (Inr (if map_of event ''repoUrl'' = None then [] else sources), s)"

definition webhook_plugin ::
  "(payload \<Rightarrow> pyexc + (string \<times> string) list) \<Rightarrow> UUID list
     \<Rightarrow> ((string \<times> string) list, payload, payload, payload Trigger list) plugin" where
  "webhook_plugin cc sources =
     \<lparr> config_class = cc,
       abs_create_event_source = (\<lambda>r s. (Inr (configuration r), s)),
       abs_get_all_relevant_event_sources = webhook_relevant sources,
       abs_get_matching_triggers = get_matching_triggers_spec webhook_matches (\<lambda>s. s) \<rparr>"

definition webhook_triggers :: "payload Trigger list" where
  "webhook_triggers =
     [\<lparr> trigger_id = 1, trigger_event_source_id = 10,
        trigger_filter = [(''branch'', PyStr ''main'')] \<rparr>,
      \<lparr> trigger_id = 2, trigger_event_source_id = 10,
        trigger_filter = [(''branch'', PyStr ''dev'')] \<rparr>,
      \<lparr> trigger_id = 1, trigger_event_source_id = 11,
        trigger_filter = [(''branch'', PyStr ''main'')] \<rparr>]"

definition webhook_event :: payload where
  "webhook_event = [(''repoUrl'', PyStr ''https://x/y''), (''branch'', PyStr ''main'')]"

definition world0 :: "(payload, payload Trigger list) world" where
  "world0 = \<lparr> trace = [], store = webhook_triggers \<rparr>"

definition webhook_sources :: "UUID list" where
  "webhook_sources = [10, 11]"

text \<open>
  Three creation requests: a wrong-typed \<^verbatim>\<open>repoUrl\<close> with the secret present, a missing
  secret, and a payload that validates.
\<close>

definition request_wrong_type :: EventSourceRequest where
  "request_wrong_type =
     \<lparr> flavor = ''webhook'',
       configuration = [(''repoUrl'', PyInt 123), (''secret'', PyStr ''s3'')] \<rparr>"

definition request_missing_secret :: EventSourceRequest where
  "request_missing_secret =
     \<lparr> flavor = ''webhook'', configuration = [(''repoUrl'', PyStr ''https://x/y'')] \<rparr>"

definition request_valid :: EventSourceRequest where
  "request_valid =
     \<lparr> flavor = ''webhook'',
       configuration = [(''repoUrl'', PyStr ''https://x/y''), (''secret'', PyStr ''s3'')] \<rparr>"

text \<open>An event that names no repository.\<close>

definition webhook_event_elsewhere :: payload where
  "webhook_event_elsewhere = [(''branch'', PyStr ''main'')]"

text \<open>The fields of a model class that a payload fails on.\<close>

definition failing_fields :: "ModelClass \<Rightarrow> payload \<Rightarrow> string list" where
  "failing_fields c p = filter (\<lambda>f. field_error p f \<noteq> []) (cls_fields c)"

section \<open>Evaluation rules for the webhook flavor\<close>

lemmas webhook_defs =
  webhook_plugin_def webhook_sources_def WebhookSourceConfig_def WebhookFilterConfig_def
  construct_def construct_indexing_def request_wrong_type_def request_missing_secret_def
  request_valid_def world0_def webhook_triggers_def webhook_event_def webhook_relevant_def
  ValidationError_mro_def KeyError_mro_def ValueError_mro_def isinstance_exc_def
  failing_fields_def webhook_event_elsewhere_def

section \<open>Creation: validation before persistence\<close>

text \<open>
  C2. When constructing the typed configuration from the request's payload raises a
  validation error (pydantic's \<^verbatim>\<open>ValidationError\<close>, or any other \<^verbatim>\<open>ValueError\<close>),
  \<^verbatim>\<open>create_event_source\<close> raises \<^verbatim>\<open>ValueError("Invalid Configuration.")\<close>, the only
  thing it has done is the construction attempt, and the store is untouched:
  \<^verbatim>\<open>_create_event_source\<close> is not called. In every run the construction attempt is the
  first thing \<^verbatim>\<open>create_event_source\<close> does.
\<close>

theorem create_event_source_invalid_configuration:
  assumes "config_class self (configuration event_source) = Inl e"
      and "isinstance_exc e ''ValueError''"
  shows "create_event_source self event_source w =
           (Inl (ValueError ''Invalid Configuration.'' (Some e)),
            w\<lparr>trace := trace w @ [Called_config_class (configuration event_source)]\<rparr>)
         \<and> (\<exists>rest. trace (snd (create_event_source self event_source w)) =
                     trace w @ Called_config_class (configuration event_source) # rest)"
  using assms
  by (simp add: create_event_source_def fail_if_event_source_configuration_invalid_def
        emit_def Let_def)

theorem create_event_source_invalid_configuration_witness:
  "config_class (webhook_plugin (construct WebhookSourceConfig) webhook_sources)
       (configuration request_wrong_type)
     = Inl (PyExc ValidationError_mro ''repoUrl: str type expected; '' None)
   \<and> isinstance_exc (PyExc ValidationError_mro ''repoUrl: str type expected; '' None)
         ''ValueError''
   \<and> create_event_source (webhook_plugin (construct WebhookSourceConfig) webhook_sources)
        request_wrong_type world0
     = (Inl (ValueError ''Invalid Configuration.''
               (Some (PyExc ValidationError_mro ''repoUrl: str type expected; '' None))),
        \<lparr> trace = [Called_config_class (configuration request_wrong_type)],
          store = webhook_triggers \<rparr>)"
proof -
  have h1: "config_class (webhook_plugin (construct WebhookSourceConfig) webhook_sources)
       (configuration request_wrong_type)
     = Inl (PyExc ValidationError_mro ''repoUrl: str type expected; '' None)"
    by (simp add: webhook_defs)
  have h2: "isinstance_exc (PyExc ValidationError_mro ''repoUrl: str type expected; '' None)
     ''ValueError''"
    by (simp add: webhook_defs)
  from create_event_source_invalid_configuration [OF h1 h2, of world0] h1 h2
  show ?thesis by (simp add: world0_def)
qed

text \<open>
  C9. When constructing the typed configuration raises, \<^verbatim>\<open>create_event_source\<close> raises
  too: \<^verbatim>\<open>ValueError("Invalid Configuration.")\<close> if the exception is an instance of
  \<^verbatim>\<open>ValueError\<close>, and the very same exception otherwise. Either way the trace holds the
  construction attempt only and the store is untouched: \<^verbatim>\<open>_create_event_source\<close> is not
  called.
\<close>

theorem create_event_source_exception_conversion:
  assumes "config_class self (configuration event_source) = Inl e"
  shows "create_event_source self event_source w =
           (Inl (if isinstance_exc e ''ValueError''
                 then ValueError ''Invalid Configuration.'' (Some e) else e),
            w\<lparr>trace := trace w @ [Called_config_class (configuration event_source)]\<rparr>)"
  using assms
  by (simp add: create_event_source_def fail_if_event_source_configuration_invalid_def
        emit_def Let_def)

theorem create_event_source_exception_conversion_witness:
  "config_class (webhook_plugin (construct WebhookSourceConfig) webhook_sources)
       (configuration request_missing_secret)
     = Inl (PyExc ValidationError_mro ''secret: field required; '' None)
   \<and> create_event_source (webhook_plugin (construct WebhookSourceConfig) webhook_sources)
        request_missing_secret world0
     = (Inl (ValueError ''Invalid Configuration.''
               (Some (PyExc ValidationError_mro ''secret: field required; '' None))),
        \<lparr> trace = [Called_config_class (configuration request_missing_secret)],
          store = webhook_triggers \<rparr>)
   \<and> config_class (webhook_plugin (construct_indexing WebhookSourceConfig) webhook_sources)
       (configuration request_missing_secret)
     = Inl (PyExc KeyError_mro ''secret'' None)
   \<and> create_event_source
        (webhook_plugin (construct_indexing WebhookSourceConfig) webhook_sources)
        request_missing_secret world0
     = (Inl (PyExc KeyError_mro ''secret'' None),
        \<lparr> trace = [Called_config_class (configuration request_missing_secret)],
          store = webhook_triggers \<rparr>)"
proof -
  have h1: "config_class (webhook_plugin (construct WebhookSourceConfig) webhook_sources)
       (configuration request_missing_secret)
     = Inl (PyExc ValidationError_mro ''secret: field required; '' None)"
    by (simp add: webhook_defs)
  have h2: "config_class (webhook_plugin (construct_indexing WebhookSourceConfig) webhook_sources)
       (configuration request_missing_secret)
     = Inl (PyExc KeyError_mro ''secret'' None)"
    by (simp add: webhook_defs)
  have c1: "isinstance_exc (PyExc ValidationError_mro ''secret: field required; '' None)
     ''ValueError''"
    by (simp add: webhook_defs)
  have c2: "\<not> isinstance_exc (PyExc KeyError_mro ''secret'' None) ''ValueError''"
    by (simp add: webhook_defs)
  from create_event_source_exception_conversion [OF h1, of world0]
       create_event_source_exception_conversion [OF h2, of world0] h1 h2 c1 c2
  show ?thesis by (simp add: world0_def)
qed

text \<open>
  C10. When the construction succeeds, \<^verbatim>\<open>create_event_source\<close> calls
  \<^verbatim>\<open>_create_event_source\<close> once, on the request it was given, and its outcome (result and
  store) is the outcome of that call. The typed configuration \<open>cfg\<close> occurs nowhere in it.
\<close>

theorem create_event_source_valid_passes_request:
  assumes "config_class self (configuration event_source) = Inr cfg"
  shows "create_event_source self event_source w =
           (fst (abs_create_event_source self event_source (store w)),
            \<lparr> trace = trace w @ [Called_config_class (configuration event_source),
                                  Called_create_event_source event_source],
              store = snd (abs_create_event_source self event_source (store w)) \<rparr>)"
  using assms
  by (simp add: create_event_source_def fail_if_event_source_configuration_invalid_def
        call_create_event_source_def emit_def Let_def split: prod.splits)

theorem create_event_source_valid_passes_request_witness:
  "config_class (webhook_plugin (construct WebhookSourceConfig) webhook_sources)
       (configuration request_valid)
     = Inr [(''repoUrl'', ''https://x/y''), (''secret'', ''s3'')]
   \<and> create_event_source (webhook_plugin (construct WebhookSourceConfig) webhook_sources)
        request_valid world0
     = (Inr (configuration request_valid),
        \<lparr> trace = [Called_config_class (configuration request_valid),
                    Called_create_event_source request_valid],
          store = webhook_triggers \<rparr>)"
proof -
  have h1: "config_class (webhook_plugin (construct WebhookSourceConfig) webhook_sources)
       (configuration request_valid)
     = Inr [(''repoUrl'', ''https://x/y''), (''secret'', ''s3'')]"
    by (simp add: webhook_defs)
  from create_event_source_valid_passes_request [OF h1, of world0] h1
  show ?thesis by (simp add: world0_def webhook_plugin_def)
qed

section \<open>Processing: no relevant event source\<close>

text \<open>
  C4. When \<^verbatim>\<open>_get_all_relevant_event_sources\<close> returns the empty list,
  \<^verbatim>\<open>process_event\<close> returns \<^verbatim>\<open>None\<close> without raising, and that call is the only
  thing it has done: \<^verbatim>\<open>_get_matching_triggers\<close> is not called and nothing is logged or
  dispatched.
\<close>

theorem process_event_no_relevant_sources:
  assumes "abs_get_all_relevant_event_sources self event (store w) = (Inr [], s')"
  shows "process_event self event w =
           (Inr (), \<lparr> trace = trace w @ [Called_get_all_relevant_event_sources event],
                      store = s' \<rparr>)"
  using assms
  by (simp add: process_event_def call_get_all_relevant_event_sources_def emit_def Let_def)

theorem process_event_no_relevant_sources_witness:
  "abs_get_all_relevant_event_sources
       (webhook_plugin (construct WebhookSourceConfig) webhook_sources)
       webhook_event_elsewhere (store world0) = (Inr [], webhook_triggers)
   \<and> process_event (webhook_plugin (construct WebhookSourceConfig) webhook_sources)
        webhook_event_elsewhere world0
     = (Inr (), \<lparr> trace = [Called_get_all_relevant_event_sources webhook_event_elsewhere],
                  store = webhook_triggers \<rparr>)"
proof -
  have h1: "abs_get_all_relevant_event_sources
       (webhook_plugin (construct WebhookSourceConfig) webhook_sources)
       webhook_event_elsewhere (store world0) = (Inr [], webhook_triggers)"
    by (simp add: webhook_defs)
  from process_event_no_relevant_sources [OF h1] h1
  show ?thesis by (simp add: world0_def)
qed

section \<open>Processing: what happens to the matching triggers\<close>

text \<open>
  With a non-empty list of relevant event sources, \<^verbatim>\<open>process_event\<close> calls
  \<^verbatim>\<open>_get_matching_triggers\<close> on that list and the event, and writes the list it gets back
  to the log, as it is.
\<close>

lemma process_event_passes_list:
  assumes "abs_get_all_relevant_event_sources self event (store w) = (Inr ids, s1)"
      and "ids \<noteq> []"
      and "abs_get_matching_triggers self ids event s1 = (Inr ts, s2)"
  shows "process_event self event w =
           (Inr (), \<lparr> trace = trace w @ [Called_get_all_relevant_event_sources event,
                                          Called_get_matching_triggers ids event,
                                          Logger_info forward_message ts],
                      store = s2 \<rparr>)"
  using assms
  by (simp add: process_event_def call_get_all_relevant_event_sources_def
        call_get_matching_triggers_def emit_def Let_def)

text \<open>
  C3. On the webhook event, whose repository has two relevant event sources and one matching
  trigger, \<^verbatim>\<open>process_event\<close> calls the two extension points and writes one log record
  naming the trigger. That is all it does: the hand-over of event and trigger identifiers
  to the Event Hub, announced by the docstring, is the \<^verbatim>\<open>TODO\<close> comment in the body.
\<close>

theorem process_event_only_logs:
  "process_event (webhook_plugin (construct WebhookSourceConfig) webhook_sources)
     webhook_event world0 =
     (Inr (), \<lparr> trace = [Called_get_all_relevant_event_sources webhook_event,
                          Called_get_matching_triggers [10, 11] webhook_event,
                          Logger_info forward_message [1]],
                store = webhook_triggers \<rparr>)"
  by (simp add: process_event_def call_get_all_relevant_event_sources_def
        call_get_matching_triggers_def emit_def Let_def webhook_defs
        get_matching_triggers_spec_def matching_triggers_spec_def webhook_matches_def)

lemma matching_triggers_spec_distinct:
  "distinct (matching_triggers_spec m triggers ids event)"
  by (simp add: matching_triggers_spec_def)

lemma matching_triggers_spec_set:
  "set (matching_triggers_spec m triggers ids event) =
     trigger_id ` {t \<in> set triggers.
                     trigger_event_source_id t \<in> set ids \<and> m (trigger_filter t) event}"
  by (simp add: matching_triggers_spec_def)

text \<open>
  C5. For a plugin whose \<^verbatim>\<open>_get_matching_triggers\<close> is the extension point as specified,
  and an event with a non-empty list of relevant event sources, the trigger identifiers that
  \<^verbatim>\<open>process_event\<close> obtains and logs contain no identifier twice, and they are exactly the
  identifiers of the triggers that listen on one of the relevant event sources and whose
  filter matches the event: as many entries as there are such identifiers, also when a
  trigger is reached through several of the event sources.
\<close>

theorem process_event_distinct_trigger_ids:
  assumes "abs_get_matching_triggers self = get_matching_triggers_spec m triggers_of"
      and "abs_get_all_relevant_event_sources self event (store w) = (Inr ids, s1)"
      and "ids \<noteq> []"
  shows "\<exists>ts. process_event self event w =
                (Inr (), \<lparr> trace = trace w @ [Called_get_all_relevant_event_sources event,
                                               Called_get_matching_triggers ids event,
                                               Logger_info forward_message ts],
                           store = s1 \<rparr>)
            \<and> distinct ts
            \<and> set ts = trigger_id ` {t \<in> set (triggers_of s1).
                          trigger_event_source_id t \<in> set ids \<and> m (trigger_filter t) event}
            \<and> length ts = card (trigger_id ` {t \<in> set (triggers_of s1).
                          trigger_event_source_id t \<in> set ids \<and> m (trigger_filter t) event})"
proof -
  let ?ts = "matching_triggers_spec m (triggers_of s1) ids event"
  have call: "abs_get_matching_triggers self ids event s1 = (Inr ?ts, s1)"
    by (simp add: assms(1) get_matching_triggers_spec_def)
  have run: "process_event self event w =
                (Inr (), \<lparr> trace = trace w @ [Called_get_all_relevant_event_sources event,
                                               Called_get_matching_triggers ids event,
                                               Logger_info forward_message ?ts],
                           store = s1 \<rparr>)"
    by (rule process_event_passes_list [OF assms(2) assms(3) call])
  have d: "distinct ?ts" by (rule matching_triggers_spec_distinct)
  have s: "set ?ts = trigger_id ` {t \<in> set (triggers_of s1).
                          trigger_event_source_id t \<in> set ids \<and> m (trigger_filter t) event}"
    by (rule matching_triggers_spec_set)
  have l: "length ?ts = card (set ?ts)"
    using d by (simp add: distinct_card)
  from run d s l show ?thesis by auto
qed

theorem process_event_distinct_trigger_ids_witness:
  "abs_get_matching_triggers (webhook_plugin (construct WebhookSourceConfig) webhook_sources)
     = get_matching_triggers_spec webhook_matches (\<lambda>s. s)
   \<and> abs_get_all_relevant_event_sources
       (webhook_plugin (construct WebhookSourceConfig) webhook_sources)
       webhook_event (store world0) = (Inr [10, 11], webhook_triggers)
   \<and> [10, 11] \<noteq> ([] :: UUID list)
   \<and> (\<exists>ts. process_event (webhook_plugin (construct WebhookSourceConfig) webhook_sources)
               webhook_event world0 =
                (Inr (), \<lparr> trace = trace world0 @
                                      [Called_get_all_relevant_event_sources webhook_event,
                                       Called_get_matching_triggers [10, 11] webhook_event,
                                       Logger_info forward_message ts],
                           store = webhook_triggers \<rparr>)
            \<and> distinct ts
            \<and> set ts = trigger_id ` {t \<in> set webhook_triggers.
                          trigger_event_source_id t \<in> set [10, 11]
                          \<and> webhook_matches (trigger_filter t) webhook_event}
            \<and> length ts = card (trigger_id ` {t \<in> set webhook_triggers.
                          trigger_event_source_id t \<in> set [10, 11]
                          \<and> webhook_matches (trigger_filter t) webhook_event}))"
proof -
  have h1: "abs_get_matching_triggers
              (webhook_plugin (construct WebhookSourceConfig) webhook_sources)
     = get_matching_triggers_spec webhook_matches (\<lambda>s. s)"
    by (simp add: webhook_plugin_def)
  have h2: "abs_get_all_relevant_event_sources
       (webhook_plugin (construct WebhookSourceConfig) webhook_sources)
       webhook_event (store world0) = (Inr [10, 11], webhook_triggers)"
    by (simp add: webhook_defs)
  have h3: "[10, 11] \<noteq> ([] :: UUID list)" by simp
  from process_event_distinct_trigger_ids [OF h1 h2 h3] h1 h2 h3
  show ?thesis by simp
qed

section \<open>Flavor schemas and the flavor response\<close>

text \<open>
  C1. For the webhook flavor, whose two configuration classes have different schemas,
  \<^verbatim>\<open>get_event_source_config_schema\<close> returns the schema of the filter configuration class
  and \<^verbatim>\<open>get_event_filter_config_schema\<close> returns the schema of the source configuration
  class: each operation reads the other one's class attribute.
\<close>

theorem schema_operations_swapped:
  "get_event_source_config_schema model_schema (\<lambda>text. text) WebhookFlavor
     = model_schema WebhookFilterConfig
   \<and> get_event_filter_config_schema model_schema (\<lambda>text. text) WebhookFlavor
     = model_schema WebhookSourceConfig
   \<and> model_schema WebhookFilterConfig \<noteq> model_schema WebhookSourceConfig"
  by (simp add: get_event_source_config_schema_def get_event_filter_config_schema_def
        WebhookFlavor_def model_schema_def WebhookSourceConfig_def WebhookFilterConfig_def)


section \<open>Creation: what the error says\<close>

text \<open>
  C7, as stated, fails. One request fails validation on \<^verbatim>\<open>repoUrl\<close> only, another on
  \<^verbatim>\<open>secret\<close> only; \<^verbatim>\<open>create_event_source\<close> raises for both, and the two errors have
  the same class and the same message, \<^verbatim>\<open>Invalid Configuration.\<close>, which names no field.
\<close>

theorem create_event_source_error_names_no_field:
  "failing_fields WebhookSourceConfig (configuration request_wrong_type) = [''repoUrl'']
   \<and> failing_fields WebhookSourceConfig (configuration request_missing_secret) = [''secret'']
   \<and> isl (fst (create_event_source
                 (webhook_plugin (construct WebhookSourceConfig) webhook_sources)
                 request_wrong_type world0))
   \<and> isl (fst (create_event_source
                 (webhook_plugin (construct WebhookSourceConfig) webhook_sources)
                 request_missing_secret world0))
   \<and> exc_mro (projl (fst (create_event_source
                 (webhook_plugin (construct WebhookSourceConfig) webhook_sources)
                 request_wrong_type world0)))
     = exc_mro (projl (fst (create_event_source
                 (webhook_plugin (construct WebhookSourceConfig) webhook_sources)
                 request_missing_secret world0)))
   \<and> exc_args (projl (fst (create_event_source
                 (webhook_plugin (construct WebhookSourceConfig) webhook_sources)
                 request_wrong_type world0)))
     = ''Invalid Configuration.''
   \<and> exc_args (projl (fst (create_event_source
                 (webhook_plugin (construct WebhookSourceConfig) webhook_sources)
                 request_missing_secret world0)))
     = ''Invalid Configuration.''"
  by (simp add: create_event_source_def fail_if_event_source_configuration_invalid_def
        emit_def Let_def webhook_defs ValueError_def)

text \<open>
  C7, amended. When the construction of the typed configuration raises a \<^verbatim>\<open>ValueError\<close>,
  the error of \<^verbatim>\<open>create_event_source\<close> is a plain \<^verbatim>\<open>ValueError\<close> with the fixed message
  \<^verbatim>\<open>Invalid Configuration.\<close>, whichever fields failed; the validation error itself is
  kept only as the implicit context of that error.
\<close>

theorem create_event_source_error_fixed_message:
  assumes "config_class self (configuration event_source) = Inl e"
      and "isinstance_exc e ''ValueError''"
  shows "\<exists>x. fst (create_event_source self event_source w) = Inl x
           \<and> exc_mro x = ValueError_mro
           \<and> exc_args x = ''Invalid Configuration.''
           \<and> exc_context x = Some e"
  using assms
  by (simp add: create_event_source_def fail_if_event_source_configuration_invalid_def
        emit_def Let_def ValueError_def)

theorem create_event_source_error_fixed_message_witness:
  "config_class (webhook_plugin (construct WebhookSourceConfig) webhook_sources)
       (configuration request_missing_secret)
     = Inl (PyExc ValidationError_mro ''secret: field required; '' None)
   \<and> isinstance_exc (PyExc ValidationError_mro ''secret: field required; '' None)
         ''ValueError''
   \<and> (\<exists>x. fst (create_event_source
                 (webhook_plugin (construct WebhookSourceConfig) webhook_sources)
                 request_missing_secret world0) = Inl x
           \<and> exc_mro x = ValueError_mro
           \<and> exc_args x = ''Invalid Configuration.''
           \<and> exc_context x = Some (PyExc ValidationError_mro ''secret: field required; '' None))"
proof -
  have h1: "config_class (webhook_plugin (construct WebhookSourceConfig) webhook_sources)
       (configuration request_missing_secret)
     = Inl (PyExc ValidationError_mro ''secret: field required; '' None)"
    by (simp add: webhook_defs)
  have h2: "isinstance_exc (PyExc ValidationError_mro ''secret: field required; '' None)
     ''ValueError''"
    by (simp add: webhook_defs)
  from create_event_source_error_fixed_message [OF h1 h2, of world0] h1 h2
  show ?thesis by simp
qed

end
